theory Spec2Isabelle
  imports Main
begin

section \<open>Go values used by the registry package\<close>

text \<open>
  A Go \<^verbatim>\<open>string\<close> is a byte sequence, here a \<^typ>\<open>string\<close>. A non-nil Go
  \<^verbatim>\<open>error\<close> is represented by the text its \<^verbatim>\<open>Error()\<close> method gives, which is
  all the package ever reads of it; a value of type \<^verbatim>\<open>error\<close> that may be nil is a
  \<open>go_error option\<close>. A slice that may be nil is an option of a list.
\<close>

type_synonym go_error = string

text \<open>A call either returns its result or panics with a runtime error.\<close>

datatype 'a outcome = Returns 'a | Panics string

subsection \<open>The functions of package strings that the code calls\<close>

text \<open>
  \<^verbatim>\<open>strings.HasPrefix(s, prefix)\<close> is
  \<^verbatim>\<open>len(s) >= len(prefix) && s[:len(prefix)] == prefix\<close>.
\<close>

definition HasPrefix :: "string \<Rightarrow> string \<Rightarrow> bool" where
  "HasPrefix s pre = (length pre \<le> length s \<and> take (length pre) s = pre)"

text \<open>
  \<^verbatim>\<open>strings.Count(s, substr)\<close> for a separator of one byte: the number of
  occurrences of that byte.
\<close>

definition Count :: "string \<Rightarrow> char \<Rightarrow> nat" where
  "Count s sep = length (filter (\<lambda>c. c = sep) s)"

text \<open>
  \<^verbatim>\<open>strings.IndexByte\<close>: the position of the first occurrence of the separator,
  \<open>None\<close> for Go's \<open>-1\<close>.
\<close>

fun IndexByte :: "string \<Rightarrow> char \<Rightarrow> nat option" where
  "IndexByte [] sep = None"
| "IndexByte (c # cs) sep =
     (if c = sep then Some 0 else map_option Suc (IndexByte cs sep))"

text \<open>
  The loop of \<^verbatim>\<open>strings.genSplit\<close> for a separator of one byte; the second
  argument counts the cuts that are still allowed (\<open>n - 1\<close> on entry). Each round
  cuts at the first separator and goes on with the rest; the loop ends when no separator
  is left or no cut is allowed, and the rest is the last piece.
\<close>

fun genSplit :: "string \<Rightarrow> nat \<Rightarrow> char \<Rightarrow> string list" where
  "genSplit s 0 sep = [s]"
| "genSplit s (Suc i) sep =
     (case IndexByte s sep of
        None \<Rightarrow> [s]
      | Some m \<Rightarrow> take m s # genSplit (drop (m + 1) s) i sep)"

text \<open>
  \<^verbatim>\<open>strings.SplitN(s, sep, n)\<close> for a separator of one byte and \<open>n \<ge> 0\<close>:
  nil for \<open>n = 0\<close>; otherwise \<open>n\<close> is capped at \<open>len(s) + 1\<close> and at most
  \<open>n\<close> pieces are returned, the last one being the unsplit remainder.
\<close>

definition SplitN :: "string \<Rightarrow> char \<Rightarrow> nat \<Rightarrow> string list" where
  "SplitN s sep n =
     (if n = 0 then []
      else genSplit s ((if n > length s + 1 then length s + 1 else n) - 1) sep)"

subsection \<open>strings.TrimLeft\<close>

text \<open>
  A rune is a Unicode code point, a natural number. \<^verbatim>\<open>utf8.DecodeRuneInString\<close>
  reads the first rune of a string and its width in bytes; a byte sequence that is not
  a well-formed UTF-8 encoding (a continuation or unused lead byte, a missing or
  out-of-range continuation byte, an overlong form, a surrogate, a value above
  \<open>U+10FFFF\<close>) gives \<^verbatim>\<open>RuneError\<close> with width 1, the empty string gives it with
  width 0.
\<close>

type_synonym rune = nat

definition RuneSelf :: nat where
  "RuneSelf = 0x80"

definition RuneError :: rune where
  "RuneError = 0xFFFD"

definition DecodeRuneInString :: "string \<Rightarrow> rune \<times> nat" where
  "DecodeRuneInString s =
     (if length s < 1 then (RuneError, 0)
      else
        let s0 = (of_char (s ! 0) :: nat) in
        if s0 < 0x80 then (s0, 1)
        else if s0 < 0xC2 \<or> 0xF4 < s0 then (RuneError, 1)
        else
          let sz = (if s0 < 0xE0 then 2 else if s0 < 0xF0 then 3 else 4 :: nat);
              lo = (if s0 = 0xE0 then 0xA0 else if s0 = 0xF0 then 0x90 else 0x80 :: nat);
              hi = (if s0 = 0xED then 0x9F else if s0 = 0xF4 then 0x8F else 0xBF :: nat)
          in
          if length s < sz then (RuneError, 1)
          else
            let s1 = (of_char (s ! 1) :: nat) in
            if s1 < lo \<or> hi < s1 then (RuneError, 1)
            else if sz \<le> 2 then ((s0 mod 0x20) * 0x40 + s1 mod 0x40, 2)
            else
              let s2 = (of_char (s ! 2) :: nat) in
              if s2 < 0x80 \<or> 0xBF < s2 then (RuneError, 1)
              else if sz \<le> 3
              then ((s0 mod 0x10) * 0x1000 + (s1 mod 0x40) * 0x40 + s2 mod 0x40, 3)
              else
                let s3 = (of_char (s ! 3) :: nat) in
                if s3 < 0x80 \<or> 0xBF < s3 then (RuneError, 1)
                else ((s0 mod 0x08) * 0x40000 + (s1 mod 0x40) * 0x1000
                      + (s2 mod 0x40) * 0x40 + s3 mod 0x40, 4))"

lemma DecodeRuneInString_size: "s \<noteq> [] \<Longrightarrow> 1 \<le> snd (DecodeRuneInString s)"
  by (cases s) (simp_all add: DecodeRuneInString_def Let_def)

text \<open>The runes that a \<^verbatim>\<open>for ... range s\<close> loop goes through.\<close>

function rangeRunes :: "string \<Rightarrow> rune list" where
  "rangeRunes s =
     (if s = [] then []
      else fst (DecodeRuneInString s) # rangeRunes (drop (snd (DecodeRuneInString s)) s))"
  by pat_completeness auto
termination
proof (relation "measure length")
  show "wf (measure length)" by simp
next
  fix s :: string
  assume "s \<noteq> []"
  then show "(drop (snd (DecodeRuneInString s)) s, s) \<in> measure length"
    using DecodeRuneInString_size [of s] by simp
qed

declare rangeRunes.simps [simp del]

definition ValidRune :: "rune \<Rightarrow> bool" where
  "ValidRune r = (r < 0xD800 \<or> (0xDFFF < r \<and> r \<le> 0x10FFFF))"

text \<open>The UTF-8 encoding \<^verbatim>\<open>string(r)\<close> of a valid rune.\<close>

definition EncodeRune :: "rune \<Rightarrow> string" where
  "EncodeRune r =
     (if r < 0x80 then [char_of r]
      else if r < 0x800 then [char_of (0xC0 + r div 0x40), char_of (0x80 + r mod 0x40)]
      else if r < 0x10000
      then [char_of (0xE0 + r div 0x1000), char_of (0x80 + (r div 0x40) mod 0x40),
            char_of (0x80 + r mod 0x40)]
      else [char_of (0xF0 + r div 0x40000), char_of (0x80 + (r div 0x1000) mod 0x40),
            char_of (0x80 + (r div 0x40) mod 0x40), char_of (0x80 + r mod 0x40)])"

text \<open>\<^verbatim>\<open>strings.Index\<close>: the position of the first occurrence of a substring.\<close>

fun Index :: "string \<Rightarrow> string \<Rightarrow> nat option" where
  "Index [] substr = (if substr = [] then Some 0 else None)"
| "Index (c # cs) substr =
     (if HasPrefix (c # cs) substr then Some 0 else map_option Suc (Index cs substr))"

text \<open>
  \<^verbatim>\<open>strings.ContainsRune(s, r)\<close>, that is \<^verbatim>\<open>IndexRune(s, r) >= 0\<close>: a rune below
  \<^verbatim>\<open>RuneSelf\<close> is looked up as a byte, \<^verbatim>\<open>RuneError\<close> is found when ranging over
  \<open>s\<close> meets it, an invalid rune is never found, and any other rune is found when its
  encoding is a substring.
\<close>

definition ContainsRune :: "string \<Rightarrow> rune \<Rightarrow> bool" where
  "ContainsRune s r =
     (if r < RuneSelf then IndexByte s (char_of r) \<noteq> None
      else if r = RuneError then RuneError \<in> set (rangeRunes s)
      else if \<not> ValidRune r then False
      else Index s (EncodeRune r) \<noteq> None)"

text \<open>
  \<^verbatim>\<open>trimLeftUnicode\<close>: the loop that removes leading runes of \<open>s\<close> while they are
  contained in the cutset.
\<close>

function trimLeftUnicode :: "string \<Rightarrow> string \<Rightarrow> string" where
  "trimLeftUnicode s cutset =
     (if s = [] then s
      else
        let (r, n) = (if RuneSelf \<le> of_char (s ! 0) then DecodeRuneInString s
                      else (of_char (s ! 0), 1))
        in if \<not> ContainsRune cutset r then s else trimLeftUnicode (drop n s) cutset)"
  by pat_completeness auto
termination
proof (relation "measure (\<lambda>(s, cutset). length s)")
  show "wf (measure (\<lambda>(s, cutset). length s))" by simp
next
  fix s cutset :: string and x :: "rune \<times> nat" and r n
  assume "s \<noteq> []"
    and x: "x = (if RuneSelf \<le> of_char (s ! 0) then DecodeRuneInString s else (of_char (s ! 0), 1))"
    and "(r, n) = x"
  then have "1 \<le> n"
    using DecodeRuneInString_size [of s] by (auto split: if_splits simp: snd_def split: prod.splits)
  with \<open>s \<noteq> []\<close> show "((drop n s, cutset), (s, cutset)) \<in> measure (\<lambda>(s, cutset). length s)"
    by simp
qed

declare trimLeftUnicode.simps [simp del]

text \<open>
  \<^verbatim>\<open>strings.TrimLeft(s, cutset)\<close> removes from the front of \<open>s\<close> every character
  that occurs in \<open>cutset\<close>, up to the first one that does not: the cutset is a set of
  characters, not a prefix. A cutset of one ASCII byte and a cutset of ASCII bytes are
  compared byte by byte (\<^verbatim>\<open>trimLeftByte\<close>, \<^verbatim>\<open>trimLeftASCII\<close>); any other cutset
  is compared rune by rune.
\<close>

definition TrimLeft :: "string \<Rightarrow> string \<Rightarrow> string" where
  "TrimLeft s cutset =
     (if s = [] \<or> cutset = [] then s
      else if length cutset = 1 \<and> of_char (cutset ! 0) < RuneSelf
      then dropWhile (\<lambda>c. c = cutset ! 0) s
      else if list_all (\<lambda>c. of_char c < RuneSelf) cutset
      then dropWhile (\<lambda>c. IndexByte cutset c \<noteq> None) s
      else trimLeftUnicode s cutset)"

section \<open>Parsing an image reference\<close>

text \<open>
  \<^verbatim>\<open>ParseContainerImage\<close> returns Go's triple \<open>(imageName, tag, err)\<close>. In the
  branch taken when the split has at least two pieces, the pieces at index 0 and 1 exist.
\<close>

definition ParseContainerImage :: "string \<Rightarrow> string \<times> string \<times> go_error option" where
  "ParseContainerImage img =
     (let split = SplitN img (CHR '':'') 2 in
      if length split \<le> 1
      then ('''', '''', Some (''Cannot find tag for image '' @ img))
      else (split ! 0, split ! 1, None))"

definition isDockerHub :: "string \<Rightarrow> bool" where
  "isDockerHub registryAddress =
     (HasPrefix registryAddress ''https://registry-1.docker.io''
      \<or> HasPrefix registryAddress ''https://index.docker.io'')"

section \<open>What the package reads from its surroundings\<close>

text \<open>
  The fields of \<^verbatim>\<open>dockerTypes.AuthConfig\<close> that the code reads, and the decoded
  pull secret \<^verbatim>\<open>DockerCreds\<close>. The Go map \<^verbatim>\<open>Auths\<close> is an association list
  whose order is the order in which \<^verbatim>\<open>reflect.Value.MapKeys\<close> hands out the keys in
  this run (Go leaves that order unspecified); a nil map and an empty map are both the
  empty list. Indexing a Go map with a missing key gives the zero value.
\<close>

record AuthConfig =
  Username :: string
  Password :: string

record DockerCreds =
  Auths :: "(string \<times> AuthConfig) list"

definition MapKeys :: "(string \<times> AuthConfig) list \<Rightarrow> string list" where
  "MapKeys m = map fst m"

definition MapIndex :: "(string \<times> AuthConfig) list \<Rightarrow> string \<Rightarrow> AuthConfig" where
  "MapIndex m key =
     (case map_of m key of
        None \<Rightarrow> \<lparr>Username = '''', Password = ''''\<rparr>
      | Some a \<Rightarrow> a)"

text \<open>
  The parts of the Kubernetes objects that are read: a container's image, the names of
  the pod's image pull secrets, and a secret's data (a nil map is the empty map).
\<close>

record Container =
  Container_Image :: string

record LocalObjectReference =
  Name :: string

record PodSpec =
  PodSpec_ImagePullSecrets :: "LocalObjectReference list"

record Secret =
  Data :: "string \<rightharpoonup> string"

definition DockerConfigJsonKey :: string where
  "DockerConfigJsonKey = ''.dockerconfigjson''"

text \<open>
  The cluster client, as far as it is used: getting a secret by namespace and name gives
  an error or the secret.
\<close>

type_synonym Clientset = "string \<Rightarrow> string \<Rightarrow> go_error + Secret"

text \<open>
  The registry client of \<^verbatim>\<open>heroku/docker-registry-client\<close>: the manifest of
  \<open>(repository, tag)\<close> gives an error or the digest of the image's config blob; a
  blob download gives an error or a reader, and reading a reader to its end
  (\<^verbatim>\<open>ioutil.ReadAll\<close>) gives an error or the bytes.
\<close>

type_synonym Reader = "go_error + string"

record Registry =
  ManifestV2 :: "string \<Rightarrow> string \<Rightarrow> go_error + string"
  DownloadBlob :: "string \<Rightarrow> string \<Rightarrow> go_error + Reader"

text \<open>
  The fields of the OCI image configuration (\<^verbatim>\<open>imagev1.Image\<close>) that are returned;
  a field absent from the JSON document is a nil slice.
\<close>

record ImageConfig =
  Entrypoint :: "string list option"
  Cmd :: "string list option"

record ImageV1 =
  Config :: ImageConfig

text \<open>
  The process environment, the two constructors of the registry client and the two uses
  of \<^verbatim>\<open>json.Unmarshal\<close> (into a \<^verbatim>\<open>DockerCreds\<close> and into an
  \<^verbatim>\<open>imagev1.Image\<close>) are libraries outside the repository; they are parameters.
\<close>

record World =
  Getenv :: "string \<Rightarrow> string"
  registry_New :: "string \<Rightarrow> string \<Rightarrow> string \<Rightarrow> go_error + Registry"
  registry_NewInsecure :: "string \<Rightarrow> string \<Rightarrow> string \<Rightarrow> go_error + Registry"
  Unmarshal_DockerCreds :: "string \<Rightarrow> go_error + DockerCreds"
  Unmarshal_Image :: "string \<Rightarrow> go_error + ImageV1"

text \<open>
  The calls a function makes on the cluster and on the registry are recorded, in order,
  next to its result.
\<close>

datatype call =
    SecretsGet string string
  | New string string string
  | NewInsecure string string string
  | CallManifestV2 string string
  | CallDownloadBlob string string
  | ReadAll
  | Close

section \<open>Downloading the image configuration\<close>

type_synonym blob_result = "string list option \<times> string list option \<times> go_error option"

text \<open>
  \<^verbatim>\<open>GetImageBlob\<close> returns Go's triple \<open>(entrypoint, cmd, err)\<close>. The deferred
  \<^verbatim>\<open>reader.Close()\<close> runs when the function returns, on every path after a
  download that gave a reader.
\<close>

definition GetImageBlob ::
  "World \<Rightarrow> string \<Rightarrow> string \<Rightarrow> string \<Rightarrow> string \<Rightarrow> call list \<times> blob_result" where
  "GetImageBlob w url username password img =
     (case ParseContainerImage img of
        (imageName, tag, Some err) \<Rightarrow> ([], (None, None, Some err))
      | (imageName, tag, None) \<Rightarrow>
          let registrySkipVerify = Getenv w ''REGISTRY_SKIP_VERIFY'';
              (c1, created) =
                (if registrySkipVerify = ''true''
                 then ([NewInsecure url username password],
                       registry_NewInsecure w url username password)
                 else ([New url username password],
                       registry_New w url username password))
          in case created of
               Inl err \<Rightarrow>
                 (c1, (None, None, Some (''cannot create client for registry: '' @ err)))
             | Inr hub \<Rightarrow>
                 let c2 = c1 @ [CallManifestV2 imageName tag] in
                 (case ManifestV2 hub imageName tag of
                    Inl err \<Rightarrow>
                      (c2, (None, None, Some (''cannot download manifest for image: '' @ err)))
                  | Inr digest \<Rightarrow>
                      let c3 = c2 @ [CallDownloadBlob imageName digest] in
                      (case DownloadBlob hub imageName digest of
                         Inl err \<Rightarrow>
                           (c3, (None, None, Some (''cannot download blob: '' @ err)))
                       | Inr reader \<Rightarrow>
                           (case reader of
                              Inl err \<Rightarrow>
                                (c3 @ [ReadAll, Close],
                                 (None, None, Some (''cannot read blob: '' @ err)))
                            | Inr b \<Rightarrow>
                                (case Unmarshal_Image w b of
                                   Inl err \<Rightarrow>
                                     (c3 @ [ReadAll, Close],
                                      (None, None,
                                       Some (''cannot unmarshal BlobResponse JSON: '' @ err)))
                                 | Inr imageMetadata \<Rightarrow>
                                     (c3 @ [ReadAll, Close],
                                      (Entrypoint (Config imageMetadata),
                                       Cmd (Config imageMetadata), None)))))))"

section \<open>Reading the pull secret\<close>

text \<open>The structure \<^verbatim>\<open>K8s\<close>; its methods take it and return it updated.\<close>

record K8s =
  clientset :: Clientset
  Namespace :: string
  ImagePullSecrets :: string
  RegistryAddress :: string
  RegistryName :: string
  RegistryUsername :: string
  RegistryPassword :: string
  Image :: string

definition readDockerSecret ::
  "K8s \<Rightarrow> string \<Rightarrow> string \<Rightarrow> call list \<times> (go_error + (string \<rightharpoonup> string))" where
  "readDockerSecret k namespace secretName =
     ([SecretsGet namespace secretName],
      case clientset k namespace secretName of
        Inl err \<Rightarrow> Inl err
      | Inr secret \<Rightarrow> Inr (Data secret))"

text \<open>
  \<^verbatim>\<open>parseDockerConfig\<close> takes element 0 of the key slice without looking at its
  length: on a map with no key the index expression panics.
\<close>

definition parseDockerConfig :: "K8s \<Rightarrow> DockerCreds \<Rightarrow> K8s outcome" where
  "parseDockerConfig k dockerCreds =
     (case MapKeys (Auths dockerCreds) of
        [] \<Rightarrow> Panics ''runtime error: index out of range [0] with length 0''
      | key # others \<Rightarrow>
          let k1 = k\<lparr>RegistryName := key\<rparr>;
              k2 = (if \<not> HasPrefix (RegistryName k1) ''https://''
                    then k1\<lparr>RegistryAddress := ''https://'' @ RegistryName k1\<rparr>
                    else k1\<lparr>RegistryAddress := RegistryName k1\<rparr>);
              auths = Auths dockerCreds;
              k3 = k2\<lparr>RegistryUsername := Username (MapIndex auths (RegistryName k2))\<rparr>
          in Returns (k3\<lparr>RegistryPassword := Password (MapIndex auths (RegistryName k3))\<rparr>))"

text \<open>
  \<^verbatim>\<open>Load\<close> returns the structure as it stands when the method returns, with the
  error (nil is \<open>None\<close>); a panic of \<^verbatim>\<open>parseDockerConfig\<close> goes through it.
\<close>

definition Load ::
  "World \<Rightarrow> K8s \<Rightarrow> Container \<Rightarrow> PodSpec \<Rightarrow> call list \<times> (K8s \<times> go_error option) outcome" where
  "Load w k container podSpec =
     (let k1 = k\<lparr>Image := Container_Image container\<rparr> in
      if length (PodSpec_ImagePullSecrets podSpec) \<ge> 1 then
        let k2 = k1\<lparr>ImagePullSecrets := Name (PodSpec_ImagePullSecrets podSpec ! 0)\<rparr> in
        if ImagePullSecrets k2 \<noteq> '''' then
          (case readDockerSecret k2 (Namespace k2) (ImagePullSecrets k2) of
             (c, Inl err) \<Rightarrow>
               (c, Returns (k2, Some (''cannot read imagePullSecrets: '' @ err)))
           | (c, Inr data) \<Rightarrow>
               let dockerConfig =
                     (case data DockerConfigJsonKey of None \<Rightarrow> '''' | Some b \<Rightarrow> b)
               in (case Unmarshal_DockerCreds w dockerConfig of
                     Inl err \<Rightarrow>
                       (c, Returns (k2,
                          Some (''cannot unmarshal docker configuration from imagePullSecrets: ''
                                @ err)))
                   | Inr dockerCreds \<Rightarrow>
                       (case parseDockerConfig k2 dockerCreds of
                          Panics msg \<Rightarrow> (c, Panics msg)
                        | Returns k3 \<Rightarrow> (c, Returns (k3, None)))))
        else ([], Returns (k2, None))
      else ([], Returns (k1, None)))"

section \<open>Entrypoint and command of a container\<close>

text \<open>The structure \<^verbatim>\<open>K8s{Namespace: namespace, clientset: clientset}\<close>.\<close>

definition podInfo_init :: "Clientset \<Rightarrow> string \<Rightarrow> K8s" where
  "podInfo_init cs namespace =
     \<lparr>clientset = cs, Namespace = namespace, ImagePullSecrets = '''',
      RegistryAddress = '''', RegistryName = '''', RegistryUsername = '''',
      RegistryPassword = '''', Image = ''''\<rparr>"

text \<open>
  The statements of \<^verbatim>\<open>GetEntrypointCmd\<close> between the return of \<^verbatim>\<open>Load\<close> and
  the call of \<^verbatim>\<open>GetImageBlob\<close>: first the image with the registry name trimmed,
  then the four arguments \<open>(registryAddress, username, password, image)\<close> of the call.
\<close>

definition trimRegistryName :: "K8s \<Rightarrow> K8s" where
  "trimRegistryName podInfo =
     (if RegistryName podInfo \<noteq> ''''
      then podInfo\<lparr>Image := TrimLeft (Image podInfo) (RegistryName podInfo @ ''/'')\<rparr>
      else podInfo)"

definition GetImageBlob_args :: "K8s \<Rightarrow> string \<times> string \<times> string \<times> string" where
  "GetImageBlob_args podInfo0 =
     (let podInfo = trimRegistryName podInfo0;
          registryAddress =
            (if RegistryAddress podInfo = '''' then ''https://registry-1.docker.io/''
             else RegistryAddress podInfo);
          podInfo' =
            (if isDockerHub registryAddress \<and> Count (Image podInfo) (CHR ''/'') = 0
             then podInfo\<lparr>Image := ''library/'' @ Image podInfo\<rparr>
             else podInfo)
      in (registryAddress, RegistryUsername podInfo', RegistryPassword podInfo',
          Image podInfo'))"

definition GetEntrypointCmd ::
  "World \<Rightarrow> Clientset \<Rightarrow> string \<Rightarrow> Container \<Rightarrow> PodSpec \<Rightarrow> call list \<times> blob_result outcome" where
  "GetEntrypointCmd w cs namespace container podSpec =
     (case Load w (podInfo_init cs namespace) container podSpec of
        (c, Panics msg) \<Rightarrow> (c, Panics msg)
      | (c, Returns (podInfo, Some err)) \<Rightarrow> (c, Returns (None, None, Some err))
      | (c, Returns (podInfo, None)) \<Rightarrow>
          (case GetImageBlob_args podInfo of
             (registryAddress, username, password, img) \<Rightarrow>
               (case GetImageBlob w registryAddress username password img of
                  (c', r) \<Rightarrow> (c @ c', Returns r))))"

section \<open>Facts about the string functions\<close>

lemma HasPrefix_append: "HasPrefix s pre \<longleftrightarrow> (\<exists>rest. s = pre @ rest)"
proof
  assume "HasPrefix s pre"
  then have "s = pre @ drop (length pre) s"
    by (metis HasPrefix_def append_take_drop_id)
  then show "\<exists>rest. s = pre @ rest" ..
next
  assume "\<exists>rest. s = pre @ rest"
  then show "HasPrefix s pre"
    by (auto simp: HasPrefix_def)
qed

lemma IndexByte_absent: "sep \<notin> set s \<Longrightarrow> IndexByte s sep = None"
  by (induction s) auto

lemma IndexByte_present:
  "sep \<in> set s \<Longrightarrow> IndexByte s sep = Some (length (takeWhile (\<lambda>c. c \<noteq> sep) s))"
  by (induction s) auto

lemma drop_past_first:
  "sep \<in> set s \<Longrightarrow>
   drop (length (takeWhile (\<lambda>c. c \<noteq> sep) s) + 1) s = tl (dropWhile (\<lambda>c. c \<noteq> sep) s)"
  by (induction s) auto

lemma take_to_first:
  "take (length (takeWhile (\<lambda>c. c \<noteq> sep) s)) s = takeWhile (\<lambda>c. c \<noteq> sep) s"
  by (induction s) auto

lemma SplitN_2_absent: "sep \<notin> set s \<Longrightarrow> SplitN s sep 2 = [s]"
  by (cases s) (auto simp: SplitN_def IndexByte_absent numeral_2_eq_2)

lemma SplitN_2_present:
  assumes "sep \<in> set s"
  shows "SplitN s sep 2 =
           [takeWhile (\<lambda>c. c \<noteq> sep) s, tl (dropWhile (\<lambda>c. c \<noteq> sep) s)]"
proof -
  from assms have "s \<noteq> []" by auto
  then have "SplitN s sep 2 = genSplit s (Suc 0) sep"
    by (cases s) (simp_all add: SplitN_def)
  also have "\<dots> = [takeWhile (\<lambda>c. c \<noteq> sep) s, tl (dropWhile (\<lambda>c. c \<noteq> sep) s)]"
    using assms drop_past_first [of sep s]
    by (simp add: IndexByte_present take_to_first)
  finally show ?thesis .
qed

section \<open>ParseContainerImage\<close>

text \<open>
  Claim C5. For every image string that contains no \<open>:\<close>, \<^verbatim>\<open>ParseContainerImage\<close>
  returns an error together with the empty name and the empty tag: no name and no tag
  is produced.
\<close>

theorem ParseContainerImage_no_colon:
  "CHR '':'' \<notin> set img \<Longrightarrow>
   ParseContainerImage img = ('''', '''', Some (''Cannot find tag for image '' @ img))"
  by (simp add: ParseContainerImage_def SplitN_2_absent)

theorem ParseContainerImage_no_colon_witness:
  "CHR '':'' \<notin> set ''nginx'' \<and>
   ParseContainerImage ''nginx'' = ('''', '''', Some ''Cannot find tag for image nginx'')"
  using ParseContainerImage_no_colon [of "''nginx''"] by simp

text \<open>
  Claim C6. For every image string with at least one \<open>:\<close>, \<^verbatim>\<open>ParseContainerImage\<close>
  splits at the first \<open>:\<close>: the name is the part before it (which has no \<open>:\<close>), the
  tag is everything after it, the error is nil, and name, \<open>:\<close> and tag put together give
  the image string back. For \<open>library/nginx:1.19\<close> the name is \<open>library/nginx\<close> and
  the tag is \<open>1.19\<close>.
\<close>

theorem ParseContainerImage_first_colon:
  assumes "CHR '':'' \<in> set img"
  shows "ParseContainerImage img =
           (takeWhile (\<lambda>c. c \<noteq> CHR '':'') img, tl (dropWhile (\<lambda>c. c \<noteq> CHR '':'') img), None)
         \<and> img = takeWhile (\<lambda>c. c \<noteq> CHR '':'') img @ '':''
                  @ tl (dropWhile (\<lambda>c. c \<noteq> CHR '':'') img)"
proof -
  have "dropWhile (\<lambda>c. c \<noteq> CHR '':'') img \<noteq> []"
    using assms by simp
  moreover have "hd (dropWhile (\<lambda>c. c \<noteq> CHR '':'') img) = CHR '':''"
    using assms hd_dropWhile [of "\<lambda>c. c \<noteq> CHR '':''" img] by simp
  ultimately have "dropWhile (\<lambda>c. c \<noteq> CHR '':'') img
                     = CHR '':'' # tl (dropWhile (\<lambda>c. c \<noteq> CHR '':'') img)"
    by (cases "dropWhile (\<lambda>c. c \<noteq> CHR '':'') img") simp_all
  then have "img = takeWhile (\<lambda>c. c \<noteq> CHR '':'') img @ '':''
                  @ tl (dropWhile (\<lambda>c. c \<noteq> CHR '':'') img)"
    using takeWhile_dropWhile_id [of "\<lambda>c. c \<noteq> CHR '':''" img] by simp
  moreover have "ParseContainerImage img =
           (takeWhile (\<lambda>c. c \<noteq> CHR '':'') img, tl (dropWhile (\<lambda>c. c \<noteq> CHR '':'') img), None)"
    using assms by (simp add: ParseContainerImage_def SplitN_2_present)
  ultimately show ?thesis by blast
qed

theorem ParseContainerImage_first_colon_witness:
  "CHR '':'' \<in> set ''library/nginx:1.19'' \<and>
   ParseContainerImage ''library/nginx:1.19'' = (''library/nginx'', ''1.19'', None)"
  using ParseContainerImage_first_colon [of "''library/nginx:1.19''"] by simp

section \<open>isDockerHub\<close>

text \<open>
  Claim C8. For every address, \<^verbatim>\<open>isDockerHub\<close> is true exactly when the address
  begins with \<open>https://registry-1.docker.io\<close> or with \<open>https://index.docker.io\<close>;
  it is false for \<open>https://myregistry.example.com\<close>.
\<close>

theorem isDockerHub_iff_prefix:
  "(isDockerHub registryAddress \<longleftrightarrow>
      (\<exists>rest. registryAddress = ''https://registry-1.docker.io'' @ rest)
      \<or> (\<exists>rest. registryAddress = ''https://index.docker.io'' @ rest))
   \<and> isDockerHub ''https://myregistry.example.com'' = False"
  by (simp add: isDockerHub_def HasPrefix_append)

section \<open>GetImageBlob\<close>

text \<open>
  Claim C7, amended. An image reference without a tag makes \<^verbatim>\<open>GetImageBlob\<close>
  return the tag error with no client created. For every image reference that has a
  tag, \<^verbatim>\<open>GetImageBlob\<close> creates the registry client without certificate verification
  (\<^verbatim>\<open>registry.NewInsecure\<close> on the given address and credentials) exactly when the
  value of \<open>REGISTRY_SKIP_VERIFY\<close> is the string \<open>true\<close>, and with
  \<^verbatim>\<open>registry.New\<close> for every other value, the empty value of an unset variable
  included. The client that this constructor gives is the one the lookup goes on with:
  the constructor's error is the error returned, and the manifest and the blob are asked
  of the client it returned, stage by stage up to the two sequences of the decoded
  configuration.
\<close>

theorem GetImageBlob_skip_verify:
  assumes "created = (if Getenv w ''REGISTRY_SKIP_VERIFY'' = ''true''
                      then registry_NewInsecure w url username password
                      else registry_New w url username password)"
    and "ctor = (if Getenv w ''REGISTRY_SKIP_VERIFY'' = ''true''
                 then NewInsecure url username password
                 else New url username password)"
  shows "(\<forall>err. snd (snd (ParseContainerImage img)) = Some err \<longrightarrow>
            GetImageBlob w url username password img = ([], None, None, Some err))
       \<and> (ParseContainerImage img = (imageName, tag, None) \<longrightarrow>
          (NewInsecure url username password \<in> set (fst (GetImageBlob w url username password img))
            \<longleftrightarrow> Getenv w ''REGISTRY_SKIP_VERIFY'' = ''true'')
       \<and> (New url username password \<in> set (fst (GetImageBlob w url username password img))
            \<longleftrightarrow> Getenv w ''REGISTRY_SKIP_VERIFY'' \<noteq> ''true'')
       \<and> (\<forall>err. created = Inl err \<longrightarrow>
              GetImageBlob w url username password img
              = ([ctor], None, None, Some (''cannot create client for registry: '' @ err)))
       \<and> (\<forall>hub err. created = Inr hub \<and> ManifestV2 hub imageName tag = Inl err \<longrightarrow>
              GetImageBlob w url username password img
              = ([ctor, CallManifestV2 imageName tag], None, None,
                 Some (''cannot download manifest for image: '' @ err)))
       \<and> (\<forall>hub digest err. created = Inr hub \<and> ManifestV2 hub imageName tag = Inr digest
              \<and> DownloadBlob hub imageName digest = Inl err \<longrightarrow>
              GetImageBlob w url username password img
              = ([ctor, CallManifestV2 imageName tag, CallDownloadBlob imageName digest],
                 None, None, Some (''cannot download blob: '' @ err)))
       \<and> (\<forall>hub digest err. created = Inr hub \<and> ManifestV2 hub imageName tag = Inr digest
              \<and> DownloadBlob hub imageName digest = Inr (Inl err) \<longrightarrow>
              GetImageBlob w url username password img
              = ([ctor, CallManifestV2 imageName tag, CallDownloadBlob imageName digest,
                  ReadAll, Close],
                 None, None, Some (''cannot read blob: '' @ err)))
       \<and> (\<forall>hub digest b err. created = Inr hub \<and> ManifestV2 hub imageName tag = Inr digest
              \<and> DownloadBlob hub imageName digest = Inr (Inr b)
              \<and> Unmarshal_Image w b = Inl err \<longrightarrow>
              GetImageBlob w url username password img
              = ([ctor, CallManifestV2 imageName tag, CallDownloadBlob imageName digest,
                  ReadAll, Close],
                 None, None, Some (''cannot unmarshal BlobResponse JSON: '' @ err)))
       \<and> (\<forall>hub digest b imageMetadata. created = Inr hub
              \<and> ManifestV2 hub imageName tag = Inr digest
              \<and> DownloadBlob hub imageName digest = Inr (Inr b)
              \<and> Unmarshal_Image w b = Inr imageMetadata \<longrightarrow>
              GetImageBlob w url username password img
              = ([ctor, CallManifestV2 imageName tag, CallDownloadBlob imageName digest,
                  ReadAll, Close],
                 Entrypoint (Config imageMetadata), Cmd (Config imageMetadata), None)))"
proof -
  have untagged: "GetImageBlob w url username password img = ([], None, None, Some err)"
    if "snd (snd (ParseContainerImage img)) = Some err" for err
    using that by (cases "ParseContainerImage img") (simp add: GetImageBlob_def)
  have tagged: "(NewInsecure url username password \<in> set (fst (GetImageBlob w url username password img))
            \<longleftrightarrow> Getenv w ''REGISTRY_SKIP_VERIFY'' = ''true'')
       \<and> (New url username password \<in> set (fst (GetImageBlob w url username password img))
            \<longleftrightarrow> Getenv w ''REGISTRY_SKIP_VERIFY'' \<noteq> ''true'')
       \<and> (\<forall>err. created = Inl err \<longrightarrow>
              GetImageBlob w url username password img
              = ([ctor], None, None, Some (''cannot create client for registry: '' @ err)))
       \<and> (\<forall>hub err. created = Inr hub \<and> ManifestV2 hub imageName tag = Inl err \<longrightarrow>
              GetImageBlob w url username password img
              = ([ctor, CallManifestV2 imageName tag], None, None,
                 Some (''cannot download manifest for image: '' @ err)))
       \<and> (\<forall>hub digest err. created = Inr hub \<and> ManifestV2 hub imageName tag = Inr digest
              \<and> DownloadBlob hub imageName digest = Inl err \<longrightarrow>
              GetImageBlob w url username password img
              = ([ctor, CallManifestV2 imageName tag, CallDownloadBlob imageName digest],
                 None, None, Some (''cannot download blob: '' @ err)))
       \<and> (\<forall>hub digest err. created = Inr hub \<and> ManifestV2 hub imageName tag = Inr digest
              \<and> DownloadBlob hub imageName digest = Inr (Inl err) \<longrightarrow>
              GetImageBlob w url username password img
              = ([ctor, CallManifestV2 imageName tag, CallDownloadBlob imageName digest,
                  ReadAll, Close],
                 None, None, Some (''cannot read blob: '' @ err)))
       \<and> (\<forall>hub digest b err. created = Inr hub \<and> ManifestV2 hub imageName tag = Inr digest
              \<and> DownloadBlob hub imageName digest = Inr (Inr b)
              \<and> Unmarshal_Image w b = Inl err \<longrightarrow>
              GetImageBlob w url username password img
              = ([ctor, CallManifestV2 imageName tag, CallDownloadBlob imageName digest,
                  ReadAll, Close],
                 None, None, Some (''cannot unmarshal BlobResponse JSON: '' @ err)))
       \<and> (\<forall>hub digest b imageMetadata. created = Inr hub
              \<and> ManifestV2 hub imageName tag = Inr digest
              \<and> DownloadBlob hub imageName digest = Inr (Inr b)
              \<and> Unmarshal_Image w b = Inr imageMetadata \<longrightarrow>
              GetImageBlob w url username password img
              = ([ctor, CallManifestV2 imageName tag, CallDownloadBlob imageName digest,
                  ReadAll, Close],
                 Entrypoint (Config imageMetadata), Cmd (Config imageMetadata), None))"
    if parsed: "ParseContainerImage img = (imageName, tag, None)"
  proof (cases "Getenv w ''REGISTRY_SKIP_VERIFY'' = ''true''")
    case True
    with assms parsed show ?thesis
      by (auto simp add: GetImageBlob_def Let_def split: sum.splits)
  next
    case False
    with assms parsed show ?thesis
      by (auto simp add: GetImageBlob_def Let_def split: sum.splits)
  qed
  from untagged tagged show ?thesis by blast
qed

theorem GetImageBlob_skip_verify_witness:
  "ParseContainerImage ''library/redis:6'' = (''library/redis'', ''6'', None)
   \<and> GetImageBlob
        \<lparr>Getenv = (\<lambda>name. if name = ''REGISTRY_SKIP_VERIFY'' then ''true'' else ''''),
         registry_New = (\<lambda>url username password. Inl ''x509: certificate signed by unknown authority''),
         registry_NewInsecure = (\<lambda>url username password.
           Inr \<lparr>ManifestV2 = (\<lambda>repository tag. Inr ''sha256:0a''),
                DownloadBlob = (\<lambda>repository digest. Inr (Inr ''(config blob)''))\<rparr>),
         Unmarshal_DockerCreds = (\<lambda>b. Inl ''unused''),
         Unmarshal_Image = (\<lambda>b. Inr \<lparr>Config =
           \<lparr>Entrypoint = Some [''docker-entrypoint.sh''], Cmd = Some [''redis-server'']\<rparr>\<rparr>)\<rparr>
        ''https://registry.example.com'' ''user'' ''pw'' ''library/redis:6''
     = ([NewInsecure ''https://registry.example.com'' ''user'' ''pw'',
         CallManifestV2 ''library/redis'' ''6'',
         CallDownloadBlob ''library/redis'' ''sha256:0a'', ReadAll, Close],
        Some [''docker-entrypoint.sh''], Some [''redis-server''], None)
   \<and> GetImageBlob
        \<lparr>Getenv = (\<lambda>name. ''''),
         registry_New = (\<lambda>url username password. Inl ''x509: certificate signed by unknown authority''),
         registry_NewInsecure = (\<lambda>url username password.
           Inr \<lparr>ManifestV2 = (\<lambda>repository tag. Inr ''sha256:0a''),
                DownloadBlob = (\<lambda>repository digest. Inr (Inr ''(config blob)''))\<rparr>),
         Unmarshal_DockerCreds = (\<lambda>b. Inl ''unused''),
         Unmarshal_Image = (\<lambda>b. Inr \<lparr>Config =
           \<lparr>Entrypoint = Some [''docker-entrypoint.sh''], Cmd = Some [''redis-server'']\<rparr>\<rparr>)\<rparr>
        ''https://registry.example.com'' ''user'' ''pw'' ''library/redis:6''
     = ([New ''https://registry.example.com'' ''user'' ''pw''], None, None,
        Some ''cannot create client for registry: x509: certificate signed by unknown authority'')"
proof -
  let ?hub = "\<lparr>ManifestV2 = (\<lambda>repository tag. Inr ''sha256:0a''),
                DownloadBlob = (\<lambda>repository digest. Inr (Inr ''(config blob)''))\<rparr>
              :: Registry"
  let ?md = "\<lparr>Config = \<lparr>Entrypoint = Some [''docker-entrypoint.sh''],
                              Cmd = Some [''redis-server'']\<rparr>\<rparr> :: ImageV1"
  let ?w1 = "\<lparr>Getenv = (\<lambda>name. if name = ''REGISTRY_SKIP_VERIFY'' then ''true'' else ''''),
         registry_New = (\<lambda>url username password. Inl ''x509: certificate signed by unknown authority''),
         registry_NewInsecure = (\<lambda>url username password. Inr ?hub),
         Unmarshal_DockerCreds = (\<lambda>b. Inl ''unused''),
         Unmarshal_Image = (\<lambda>b. Inr ?md)\<rparr>"
  let ?w2 = "\<lparr>Getenv = (\<lambda>name. ''''),
         registry_New = (\<lambda>url username password. Inl ''x509: certificate signed by unknown authority''),
         registry_NewInsecure = (\<lambda>url username password. Inr ?hub),
         Unmarshal_DockerCreds = (\<lambda>b. Inl ''unused''),
         Unmarshal_Image = (\<lambda>b. Inr ?md)\<rparr>"
  have p: "ParseContainerImage ''library/redis:6'' = (''library/redis'', ''6'', None)"
    by (simp add: ParseContainerImage_def SplitN_def)
  have a: "GetImageBlob ?w1 ''https://registry.example.com'' ''user'' ''pw'' ''library/redis:6''
     = ([NewInsecure ''https://registry.example.com'' ''user'' ''pw'',
         CallManifestV2 ''library/redis'' ''6'',
         CallDownloadBlob ''library/redis'' ''sha256:0a'', ReadAll, Close],
        Some [''docker-entrypoint.sh''], Some [''redis-server''], None)"
    using GetImageBlob_skip_verify [where w = "?w1" and url = "''https://registry.example.com''"
        and username = "''user''" and password = "''pw''"
        and img = "''library/redis:6''" and imageName = "''library/redis''" and tag = "''6''",
        OF refl refl] p
    by simp
  have b: "GetImageBlob ?w2 ''https://registry.example.com'' ''user'' ''pw'' ''library/redis:6''
     = ([New ''https://registry.example.com'' ''user'' ''pw''], None, None,
        Some ''cannot create client for registry: x509: certificate signed by unknown authority'')"
    using GetImageBlob_skip_verify [where w = "?w2" and url = "''https://registry.example.com''"
        and username = "''user''" and password = "''pw''"
        and img = "''library/redis:6''" and imageName = "''library/redis''" and tag = "''6''",
        OF refl refl] p
    by simp
  from p a b show ?thesis by simp
qed

text \<open>
  Claim C7 as first stated, for every input, does not hold: the tag is parsed before the
  environment is read, and an image reference without a tag returns the tag error with
  no client created, whatever the value of \<open>REGISTRY_SKIP_VERIFY\<close>. With the value
  \<open>true\<close> and the image \<open>nginx\<close> no constructor is called.
\<close>

theorem GetImageBlob_untagged_creates_no_client:
  "Getenv
        \<lparr>Getenv = (\<lambda>name. if name = ''REGISTRY_SKIP_VERIFY'' then ''true'' else ''''),
         registry_New = (\<lambda>url username password. Inl ''unused''),
         registry_NewInsecure = (\<lambda>url username password. Inl ''unused''),
         Unmarshal_DockerCreds = (\<lambda>b. Inl ''unused''),
         Unmarshal_Image = (\<lambda>b. Inl ''unused'')\<rparr> ''REGISTRY_SKIP_VERIFY'' = ''true''
   \<and> GetImageBlob
        \<lparr>Getenv = (\<lambda>name. if name = ''REGISTRY_SKIP_VERIFY'' then ''true'' else ''''),
         registry_New = (\<lambda>url username password. Inl ''unused''),
         registry_NewInsecure = (\<lambda>url username password. Inl ''unused''),
         Unmarshal_DockerCreds = (\<lambda>b. Inl ''unused''),
         Unmarshal_Image = (\<lambda>b. Inl ''unused'')\<rparr>
        ''https://registry.example.com'' ''user'' ''pw'' ''nginx''
     = ([], None, None, Some ''Cannot find tag for image nginx'')
   \<and> NewInsecure ''https://registry.example.com'' ''user'' ''pw'' \<notin> set (fst (GetImageBlob
        \<lparr>Getenv = (\<lambda>name. if name = ''REGISTRY_SKIP_VERIFY'' then ''true'' else ''''),
         registry_New = (\<lambda>url username password. Inl ''unused''),
         registry_NewInsecure = (\<lambda>url username password. Inl ''unused''),
         Unmarshal_DockerCreds = (\<lambda>b. Inl ''unused''),
         Unmarshal_Image = (\<lambda>b. Inl ''unused'')\<rparr>
        ''https://registry.example.com'' ''user'' ''pw'' ''nginx''))"
  by (simp add: GetImageBlob_def ParseContainerImage_def SplitN_def)

text \<open>
  The results of \<^verbatim>\<open>GetImageBlob\<close> have one of two shapes on every input: a non-nil
  error with both sequences nil, or a nil error with the two sequences of the decoded
  configuration. What \<^verbatim>\<open>GetEntrypointCmd\<close> returns has the same shape, and it
  returns unless \<^verbatim>\<open>Load\<close> panics.
\<close>

lemma GetImageBlob_result_shape:
  "(\<exists>err. snd (GetImageBlob w url username password img) = (None, None, Some err))
   \<or> (\<exists>entrypoint cmd.
         snd (GetImageBlob w url username password img) = (entrypoint, cmd, None))"
  by (simp add: GetImageBlob_def Let_def split: prod.splits option.splits sum.splits)

lemma GetEntrypointCmd_result_shape:
  "((\<exists>err. snd (GetImageBlob w url username password img) = (None, None, Some err))
    \<or> (\<exists>entrypoint cmd.
          snd (GetImageBlob w url username password img) = (entrypoint, cmd, None)))
   \<and> ((\<exists>err. snd (GetEntrypointCmd w cs namespace container podSpec)
                = Returns (None, None, Some err))
      \<or> (\<exists>entrypoint cmd. snd (GetEntrypointCmd w cs namespace container podSpec)
                = Returns (entrypoint, cmd, None))
      \<or> (\<exists>msg. snd (GetEntrypointCmd w cs namespace container podSpec) = Panics msg
              \<and> snd (Load w (podInfo_init cs namespace) container podSpec) = Panics msg))"
proof -
  have blob: "(\<exists>err. snd (GetImageBlob w u n p i) = (None, None, Some err))
    \<or> (\<exists>entrypoint cmd. snd (GetImageBlob w u n p i) = (entrypoint, cmd, None))" for u n p i
    by (simp add: GetImageBlob_def Let_def split: prod.splits option.splits sum.splits)
  show ?thesis
  proof (cases "Load w (podInfo_init cs namespace) container podSpec")
    case (Pair c res)
    show ?thesis
    proof (cases res)
      case (Panics msg)
      with Pair show ?thesis
        using blob by (simp add: GetEntrypointCmd_def)
    next
      case (Returns r)
      obtain podInfo e where r: "r = (podInfo, e)" by (cases r)
      show ?thesis
      proof (cases e)
        case (Some err)
        with Pair Returns r show ?thesis
          using blob by (simp add: GetEntrypointCmd_def)
      next
        case None
        obtain a u p i where args: "GetImageBlob_args podInfo = (a, u, p, i)"
          by (cases "GetImageBlob_args podInfo") auto
        obtain c' res' where run: "GetImageBlob w a u p i = (c', res')"
          by (cases "GetImageBlob w a u p i")
        have "snd (GetEntrypointCmd w cs namespace container podSpec) = Returns res'"
          using Pair Returns r None args run by (simp add: GetEntrypointCmd_def)
        moreover have "(\<exists>err. res' = (None, None, Some err))
              \<or> (\<exists>entrypoint cmd. res' = (entrypoint, cmd, None))"
          using blob [of a u p i] run by simp
        ultimately show ?thesis
          using blob by auto
      qed
    qed
  qed
qed

text \<open>
  Claim C3 says that on every input \<^verbatim>\<open>GetImageBlob\<close>, and hence
  \<^verbatim>\<open>GetEntrypointCmd\<close>, returns either both sequences with a nil error or a non-nil
  error with both sequences nil. \<^verbatim>\<open>GetImageBlob\<close> does. \<^verbatim>\<open>GetEntrypointCmd\<close>
  does not on a pull secret whose document is \<open>{}\<close>: the panic of
  \<^verbatim>\<open>parseDockerConfig\<close> on the empty mapping goes through \<^verbatim>\<open>Load\<close> and
  \<^verbatim>\<open>GetEntrypointCmd\<close>, which returns neither sequences nor an error.
\<close>

theorem GetEntrypointCmd_returns_nothing_on_empty_auths:
  "GetEntrypointCmd
       \<lparr>Getenv = (\<lambda>name. ''''),
        registry_New = (\<lambda>url username password. Inl ''unused''),
        registry_NewInsecure = (\<lambda>url username password. Inl ''unused''),
        Unmarshal_DockerCreds =
          (\<lambda>b. if b = ''{}'' then Inr \<lparr>Auths = []\<rparr> else Inl ''invalid character''),
        Unmarshal_Image = (\<lambda>b. Inl ''unused'')\<rparr>
       (\<lambda>namespace name. Inr \<lparr>Data = [DockerConfigJsonKey \<mapsto> ''{}'']\<rparr>)
       ''default''
       \<lparr>Container_Image = ''redis:6''\<rparr>
       \<lparr>PodSpec_ImagePullSecrets = [\<lparr>Name = ''regcred''\<rparr>]\<rparr>
     = ([SecretsGet ''default'' ''regcred''],
        Panics ''runtime error: index out of range [0] with length 0'')
   \<and> (\<nexists>err. snd (GetEntrypointCmd
       \<lparr>Getenv = (\<lambda>name. ''''),
        registry_New = (\<lambda>url username password. Inl ''unused''),
        registry_NewInsecure = (\<lambda>url username password. Inl ''unused''),
        Unmarshal_DockerCreds =
          (\<lambda>b. if b = ''{}'' then Inr \<lparr>Auths = []\<rparr> else Inl ''invalid character''),
        Unmarshal_Image = (\<lambda>b. Inl ''unused'')\<rparr>
       (\<lambda>namespace name. Inr \<lparr>Data = [DockerConfigJsonKey \<mapsto> ''{}'']\<rparr>)
       ''default''
       \<lparr>Container_Image = ''redis:6''\<rparr>
       \<lparr>PodSpec_ImagePullSecrets = [\<lparr>Name = ''regcred''\<rparr>]\<rparr>) = Returns (None, None, Some err))
   \<and> (\<nexists>entrypoint cmd. snd (GetEntrypointCmd
       \<lparr>Getenv = (\<lambda>name. ''''),
        registry_New = (\<lambda>url username password. Inl ''unused''),
        registry_NewInsecure = (\<lambda>url username password. Inl ''unused''),
        Unmarshal_DockerCreds =
          (\<lambda>b. if b = ''{}'' then Inr \<lparr>Auths = []\<rparr> else Inl ''invalid character''),
        Unmarshal_Image = (\<lambda>b. Inl ''unused'')\<rparr>
       (\<lambda>namespace name. Inr \<lparr>Data = [DockerConfigJsonKey \<mapsto> ''{}'']\<rparr>)
       ''default''
       \<lparr>Container_Image = ''redis:6''\<rparr>
       \<lparr>PodSpec_ImagePullSecrets = [\<lparr>Name = ''regcred''\<rparr>]\<rparr>) = Returns (entrypoint, cmd, None))"
  by (simp add: GetEntrypointCmd_def Load_def podInfo_init_def readDockerSecret_def
      parseDockerConfig_def MapKeys_def)

section \<open>Load\<close>

text \<open>
  Claim C9. For every container and every pod specification with no image pull secret,
  \<^verbatim>\<open>Load\<close> returns no error, reads no secret and changes only the field
  \<^verbatim>\<open>Image\<close>, which becomes the container's image; on the structure that
  \<^verbatim>\<open>GetEntrypointCmd\<close> builds, the registry address, name, user name and password
  and the pull secret name are all still empty.
\<close>

theorem Load_no_pull_secrets:
  assumes "PodSpec_ImagePullSecrets podSpec = []"
  shows "Load w k container podSpec
           = ([], Returns (k\<lparr>Image := Container_Image container\<rparr>, None))
       \<and> Load w (podInfo_init cs namespace) container podSpec
           = ([], Returns (\<lparr>clientset = cs, Namespace = namespace, ImagePullSecrets = '''',
                              RegistryAddress = '''', RegistryName = '''',
                              RegistryUsername = '''', RegistryPassword = '''',
                              Image = Container_Image container\<rparr>, None))"
  using assms by (simp add: Load_def podInfo_init_def)

theorem Load_no_pull_secrets_witness:
  "PodSpec_ImagePullSecrets \<lparr>PodSpec_ImagePullSecrets = []\<rparr> = []
   \<and> Load
        \<lparr>Getenv = (\<lambda>name. ''''),
          registry_New = (\<lambda>url username password. Inl ''unused''),
          registry_NewInsecure = (\<lambda>url username password. Inl ''unused''),
          Unmarshal_DockerCreds = (\<lambda>b. Inl ''unused''),
          Unmarshal_Image = (\<lambda>b. Inl ''unused'')\<rparr>
        (podInfo_init (\<lambda>namespace name. Inl ''not found'') ''default'')
        \<lparr>Container_Image = ''redis:6''\<rparr> \<lparr>PodSpec_ImagePullSecrets = []\<rparr>
      = ([], Returns (\<lparr>clientset = (\<lambda>namespace name. Inl ''not found''), Namespace = ''default'',
                         ImagePullSecrets = '''', RegistryAddress = '''', RegistryName = '''',
                         RegistryUsername = '''', RegistryPassword = '''',
                         Image = ''redis:6''\<rparr>, None))"
  using Load_no_pull_secrets [of "\<lparr>PodSpec_ImagePullSecrets = []\<rparr>"
        "\<lparr>Getenv = (\<lambda>name. ''''),
          registry_New = (\<lambda>url username password. Inl ''unused''),
          registry_NewInsecure = (\<lambda>url username password. Inl ''unused''),
          Unmarshal_DockerCreds = (\<lambda>b. Inl ''unused''),
          Unmarshal_Image = (\<lambda>b. Inl ''unused'')\<rparr>"
        "podInfo_init (\<lambda>namespace name. Inl ''not found'') ''default''"
        "\<lparr>Container_Image = ''redis:6''\<rparr>" "(\<lambda>namespace name. Inl ''not found'')" "''default''"]
  by (simp add: podInfo_init_def)

text \<open>
  Claim C10. When the pod specification has one or more image pull secrets,
  \<^verbatim>\<open>Load\<close> looks at the first only: the entries after it change neither the
  structure, nor the error, nor the calls made. When the name of the first entry is
  empty, no secret is read and \<^verbatim>\<open>Load\<close> returns no error, with every registry
  field as it was (empty on the structure that \<^verbatim>\<open>GetEntrypointCmd\<close> builds).
\<close>

theorem Load_first_pull_secret_only:
  "Load w k container \<lparr>PodSpec_ImagePullSecrets = s # rest\<rparr>
     = Load w k container \<lparr>PodSpec_ImagePullSecrets = s # rest'\<rparr>
   \<and> (Name s = '''' \<longrightarrow>
        Load w k container \<lparr>PodSpec_ImagePullSecrets = s # rest\<rparr>
          = ([], Returns (k\<lparr>Image := Container_Image container, ImagePullSecrets := ''''\<rparr>,
                          None)))
   \<and> (Name s = '''' \<longrightarrow>
        Load w (podInfo_init cs namespace) container \<lparr>PodSpec_ImagePullSecrets = s # rest\<rparr>
          = ([], Returns (\<lparr>clientset = cs, Namespace = namespace, ImagePullSecrets = '''',
                             RegistryAddress = '''', RegistryName = '''',
                             RegistryUsername = '''', RegistryPassword = '''',
                             Image = Container_Image container\<rparr>, None)))"
  by (simp add: Load_def podInfo_init_def)

theorem Load_first_pull_secret_only_witness:
  "Name \<lparr>Name = ''''\<rparr> = ''''
   \<and> Load
        \<lparr>Getenv = (\<lambda>name. ''''),
          registry_New = (\<lambda>url username password. Inl ''unused''),
          registry_NewInsecure = (\<lambda>url username password. Inl ''unused''),
          Unmarshal_DockerCreds = (\<lambda>b. Inl ''unused''),
          Unmarshal_Image = (\<lambda>b. Inl ''unused'')\<rparr>
        (podInfo_init (\<lambda>namespace name. Inl ''not found'') ''default'')
        \<lparr>Container_Image = ''redis:6''\<rparr>
        \<lparr>PodSpec_ImagePullSecrets = [\<lparr>Name = ''''\<rparr>, \<lparr>Name = ''regcred''\<rparr>]\<rparr>
      = ([], Returns (\<lparr>clientset = (\<lambda>namespace name. Inl ''not found''), Namespace = ''default'',
                         ImagePullSecrets = '''', RegistryAddress = '''', RegistryName = '''',
                         RegistryUsername = '''', RegistryPassword = '''',
                         Image = ''redis:6''\<rparr>, None))"
  using Load_first_pull_secret_only [of
        "\<lparr>Getenv = (\<lambda>name. ''''),
          registry_New = (\<lambda>url username password. Inl ''unused''),
          registry_NewInsecure = (\<lambda>url username password. Inl ''unused''),
          Unmarshal_DockerCreds = (\<lambda>b. Inl ''unused''),
          Unmarshal_Image = (\<lambda>b. Inl ''unused'')\<rparr>"
        "podInfo_init (\<lambda>namespace name. Inl ''not found'') ''default''"
        "\<lparr>Container_Image = ''redis:6''\<rparr>" "\<lparr>Name = ''''\<rparr>" "[\<lparr>Name = ''regcred''\<rparr>]"
        "[]" "(\<lambda>namespace name. Inl ''not found'')" "''default''"]
  by (simp add: podInfo_init_def Load_def)

text \<open>
  Claim C2 says that the registry entry is selected only when the credentials mapping
  has an entry, and that \<^verbatim>\<open>Load\<close> completes normally when it has none. The code
  calls \<^verbatim>\<open>parseDockerConfig\<close> after every successful decoding, and that method
  indexes the key slice at 0 without a test: it panics exactly when the mapping is empty.
  With a pull secret whose document is \<open>{}\<close>, \<^verbatim>\<open>Load\<close> and
  \<^verbatim>\<open>GetEntrypointCmd\<close> panic after reading the secret.
\<close>

theorem parseDockerConfig_empty_auths_panics:
  "Load
       \<lparr>Getenv = (\<lambda>name. ''''),
        registry_New = (\<lambda>url username password. Inl ''unused''),
        registry_NewInsecure = (\<lambda>url username password. Inl ''unused''),
        Unmarshal_DockerCreds =
          (\<lambda>b. if b = ''{}'' then Inr \<lparr>Auths = []\<rparr> else Inl ''invalid character''),
        Unmarshal_Image = (\<lambda>b. Inl ''unused'')\<rparr>
       (podInfo_init (\<lambda>namespace name. Inr \<lparr>Data = [DockerConfigJsonKey \<mapsto> ''{}'']\<rparr>)
          ''default'')
       \<lparr>Container_Image = ''redis:6''\<rparr>
       \<lparr>PodSpec_ImagePullSecrets = [\<lparr>Name = ''regcred''\<rparr>]\<rparr>
     = ([SecretsGet ''default'' ''regcred''],
        Panics ''runtime error: index out of range [0] with length 0'')
   \<and> GetEntrypointCmd
       \<lparr>Getenv = (\<lambda>name. ''''),
        registry_New = (\<lambda>url username password. Inl ''unused''),
        registry_NewInsecure = (\<lambda>url username password. Inl ''unused''),
        Unmarshal_DockerCreds =
          (\<lambda>b. if b = ''{}'' then Inr \<lparr>Auths = []\<rparr> else Inl ''invalid character''),
        Unmarshal_Image = (\<lambda>b. Inl ''unused'')\<rparr>
       (\<lambda>namespace name. Inr \<lparr>Data = [DockerConfigJsonKey \<mapsto> ''{}'']\<rparr>)
       ''default''
       \<lparr>Container_Image = ''redis:6''\<rparr>
       \<lparr>PodSpec_ImagePullSecrets = [\<lparr>Name = ''regcred''\<rparr>]\<rparr>
     = ([SecretsGet ''default'' ''regcred''],
        Panics ''runtime error: index out of range [0] with length 0'')
   \<and> ((\<exists>msg. parseDockerConfig k dockerCreds = Panics msg) \<longleftrightarrow> Auths dockerCreds = [])"
  by (auto simp add: GetEntrypointCmd_def Load_def podInfo_init_def readDockerSecret_def
      parseDockerConfig_def MapKeys_def Let_def split: list.splits)

section \<open>GetEntrypointCmd\<close>

lemma Count_zero: "Count s c = 0 \<longleftrightarrow> c \<notin> set s"
  by (auto simp add: Count_def filter_empty_conv)

text \<open>
  Claim C4. Whenever \<^verbatim>\<open>Load\<close> returns without error, \<^verbatim>\<open>GetEntrypointCmd\<close> is
  the call of \<^verbatim>\<open>GetImageBlob\<close> on these arguments: the address
  \<open>https://registry-1.docker.io/\<close> when no registry address was resolved, the
  resolved address otherwise; the resolved user name and password; and the image, after
  the trimming of the registry name, with \<open>library/\<close> in front of it exactly when the
  address in use is Docker Hub's and the image has no \<open>/\<close>. For a pod without pull
  secrets this is the default address, empty credentials and the container's image, with
  \<open>library/\<close> in front when it has no \<open>/\<close>; for the image \<open>redis:6\<close> the image
  handed on is \<open>library/redis:6\<close>.
\<close>

theorem GetEntrypointCmd_default_registry:
  "(Load w (podInfo_init cs namespace) container podSpec = (c, Returns (k, None)) \<longrightarrow>
      GetEntrypointCmd w cs namespace container podSpec =
        (let trimmed = (if RegistryName k \<noteq> ''''
                        then TrimLeft (Image k) (RegistryName k @ ''/'') else Image k);
             registryAddress = (if RegistryAddress k = '''' then ''https://registry-1.docker.io/''
                                else RegistryAddress k);
             img = (if isDockerHub registryAddress \<and> CHR ''/'' \<notin> set trimmed
                    then ''library/'' @ trimmed else trimmed);
             blob = GetImageBlob w registryAddress (RegistryUsername k) (RegistryPassword k) img
         in (c @ fst blob, Returns (snd blob))))
   \<and> (PodSpec_ImagePullSecrets podSpec = [] \<longrightarrow>
      GetEntrypointCmd w cs namespace container podSpec =
        (let img = (if CHR ''/'' \<notin> set (Container_Image container)
                    then ''library/'' @ Container_Image container
                    else Container_Image container);
             blob = GetImageBlob w ''https://registry-1.docker.io/'' '''' '''' img
         in (fst blob, Returns (snd blob))))
   \<and> GetEntrypointCmd w cs namespace \<lparr>Container_Image = ''redis:6''\<rparr>
        \<lparr>PodSpec_ImagePullSecrets = []\<rparr>
       = (fst (GetImageBlob w ''https://registry-1.docker.io/'' '''' '''' ''library/redis:6''),
          Returns (snd (GetImageBlob w ''https://registry-1.docker.io/'' '''' '''' ''library/redis:6'')))"
proof -
  have general: "GetEntrypointCmd w cs namespace container podSpec =
        (let trimmed = (if RegistryName k \<noteq> ''''
                        then TrimLeft (Image k) (RegistryName k @ ''/'') else Image k);
             registryAddress = (if RegistryAddress k = '''' then ''https://registry-1.docker.io/''
                                else RegistryAddress k);
             img = (if isDockerHub registryAddress \<and> CHR ''/'' \<notin> set trimmed
                    then ''library/'' @ trimmed else trimmed);
             blob = GetImageBlob w registryAddress (RegistryUsername k) (RegistryPassword k) img
         in (c @ fst blob, Returns (snd blob)))"
    if "Load w (podInfo_init cs namespace) container podSpec = (c, Returns (k, None))"
    for w cs namespace container podSpec c k
    using that
    by (simp add: GetEntrypointCmd_def GetImageBlob_args_def trimRegistryName_def Let_def
        Count_zero split: prod.splits)
  have hub: "isDockerHub ''https://registry-1.docker.io/''"
    by (simp add: isDockerHub_def HasPrefix_def)
  have nosecret: "GetEntrypointCmd w cs namespace container podSpec =
        (let img = (if CHR ''/'' \<notin> set (Container_Image container)
                    then ''library/'' @ Container_Image container
                    else Container_Image container);
             blob = GetImageBlob w ''https://registry-1.docker.io/'' '''' '''' img
         in (fst blob, Returns (snd blob)))"
    if "PodSpec_ImagePullSecrets podSpec = []" for w cs namespace container podSpec
  proof -
    have "Load w (podInfo_init cs namespace) container podSpec
            = ([], Returns ((podInfo_init cs namespace)\<lparr>Image := Container_Image container\<rparr>, None))"
      using that by (simp add: Load_def)
    from general [OF this] show ?thesis
      using hub by (simp add: podInfo_init_def Let_def)
  qed
  have redis: "GetEntrypointCmd w cs namespace \<lparr>Container_Image = ''redis:6''\<rparr>
        \<lparr>PodSpec_ImagePullSecrets = []\<rparr>
       = (fst (GetImageBlob w ''https://registry-1.docker.io/'' '''' '''' ''library/redis:6''),
          Returns (snd (GetImageBlob w ''https://registry-1.docker.io/'' '''' '''' ''library/redis:6'')))"
    using nosecret [of "\<lparr>PodSpec_ImagePullSecrets = []\<rparr>" w cs namespace
        "\<lparr>Container_Image = ''redis:6''\<rparr>"]
    by (simp add: Let_def)
  from general nosecret redis show ?thesis by blast
qed

theorem GetEntrypointCmd_default_registry_witness:
  "Load
       \<lparr>Getenv = (\<lambda>name. ''''),
        registry_New = (\<lambda>url username password.
          Inr \<lparr>ManifestV2 = (\<lambda>repository tag. Inl ''manifest unknown''),
               DownloadBlob = (\<lambda>repository digest. Inl ''unused'')\<rparr>),
        registry_NewInsecure = (\<lambda>url username password. Inl ''unused''),
        Unmarshal_DockerCreds =
          (\<lambda>b. Inr \<lparr>Auths = [(''quay.io'', \<lparr>Username = ''user'', Password = ''pw''\<rparr>)]\<rparr>),
        Unmarshal_Image = (\<lambda>b. Inl ''unused'')\<rparr>
       (podInfo_init
          (\<lambda>namespace name. Inr \<lparr>Data = [DockerConfigJsonKey \<mapsto> ''(auths for quay.io)'']\<rparr>)
          ''default'')
       \<lparr>Container_Image = ''quay.io/coreos/etcd:v3''\<rparr>
       \<lparr>PodSpec_ImagePullSecrets = [\<lparr>Name = ''regcred''\<rparr>]\<rparr>
     = ([SecretsGet ''default'' ''regcred''],
        Returns
          (\<lparr>clientset =
              (\<lambda>namespace name. Inr \<lparr>Data = [DockerConfigJsonKey \<mapsto> ''(auths for quay.io)'']\<rparr>),
            Namespace = ''default'', ImagePullSecrets = ''regcred'',
            RegistryAddress = ''https://quay.io'', RegistryName = ''quay.io'',
            RegistryUsername = ''user'', RegistryPassword = ''pw'',
            Image = ''quay.io/coreos/etcd:v3''\<rparr>, None))
   \<and> GetEntrypointCmd
       \<lparr>Getenv = (\<lambda>name. ''''),
        registry_New = (\<lambda>url username password.
          Inr \<lparr>ManifestV2 = (\<lambda>repository tag. Inl ''manifest unknown''),
               DownloadBlob = (\<lambda>repository digest. Inl ''unused'')\<rparr>),
        registry_NewInsecure = (\<lambda>url username password. Inl ''unused''),
        Unmarshal_DockerCreds =
          (\<lambda>b. Inr \<lparr>Auths = [(''quay.io'', \<lparr>Username = ''user'', Password = ''pw''\<rparr>)]\<rparr>),
        Unmarshal_Image = (\<lambda>b. Inl ''unused'')\<rparr>
       (\<lambda>namespace name. Inr \<lparr>Data = [DockerConfigJsonKey \<mapsto> ''(auths for quay.io)'']\<rparr>)
       ''default''
       \<lparr>Container_Image = ''quay.io/coreos/etcd:v3''\<rparr>
       \<lparr>PodSpec_ImagePullSecrets = [\<lparr>Name = ''regcred''\<rparr>]\<rparr>
     = ([SecretsGet ''default'' ''regcred'', New ''https://quay.io'' ''user'' ''pw'',
         CallManifestV2 ''coreos/etcd'' ''v3''],
        Returns (None, None, Some ''cannot download manifest for image: manifest unknown''))
   \<and> PodSpec_ImagePullSecrets \<lparr>PodSpec_ImagePullSecrets = []\<rparr> = []
   \<and> GetEntrypointCmd
       \<lparr>Getenv = (\<lambda>name. ''''),
        registry_New = (\<lambda>url username password.
          Inr \<lparr>ManifestV2 = (\<lambda>repository tag. Inl ''manifest unknown''),
               DownloadBlob = (\<lambda>repository digest. Inl ''unused'')\<rparr>),
        registry_NewInsecure = (\<lambda>url username password. Inl ''unused''),
        Unmarshal_DockerCreds = (\<lambda>b. Inl ''unused''),
        Unmarshal_Image = (\<lambda>b. Inl ''unused'')\<rparr>
       (\<lambda>namespace name. Inl ''unused'')
       ''default''
       \<lparr>Container_Image = ''redis:6''\<rparr>
       \<lparr>PodSpec_ImagePullSecrets = []\<rparr>
     = ([New ''https://registry-1.docker.io/'' '''' '''', CallManifestV2 ''library/redis'' ''6''],
        Returns (None, None, Some ''cannot download manifest for image: manifest unknown''))"
proof -
  let ?hub = "\<lparr>ManifestV2 = (\<lambda>repository tag. Inl ''manifest unknown''),
               DownloadBlob = (\<lambda>repository digest. Inl ''unused'')\<rparr> :: Registry"
  let ?w1 = "\<lparr>Getenv = (\<lambda>name. ''''),
        registry_New = (\<lambda>url username password. Inr ?hub),
        registry_NewInsecure = (\<lambda>url username password. Inl ''unused''),
        Unmarshal_DockerCreds =
          (\<lambda>b. Inr \<lparr>Auths = [(''quay.io'', \<lparr>Username = ''user'', Password = ''pw''\<rparr>)]\<rparr>),
        Unmarshal_Image = (\<lambda>b. Inl ''unused'')\<rparr>"
  let ?cs1 = "\<lambda>namespace name. Inr \<lparr>Data = [DockerConfigJsonKey \<mapsto> ''(auths for quay.io)'']\<rparr>
              :: go_error + Secret"
  let ?k1 = "\<lparr>clientset = ?cs1,
            Namespace = ''default'', ImagePullSecrets = ''regcred'',
            RegistryAddress = ''https://quay.io'', RegistryName = ''quay.io'',
            RegistryUsername = ''user'', RegistryPassword = ''pw'',
            Image = ''quay.io/coreos/etcd:v3''\<rparr>"
  let ?w2 = "\<lparr>Getenv = (\<lambda>name. ''''),
        registry_New = (\<lambda>url username password. Inr ?hub),
        registry_NewInsecure = (\<lambda>url username password. Inl ''unused''),
        Unmarshal_DockerCreds = (\<lambda>b. Inl ''unused''),
        Unmarshal_Image = (\<lambda>b. Inl ''unused'')\<rparr>"
  let ?cs2 = "\<lambda>namespace name. Inl ''unused'' :: go_error + Secret"
  have load: "Load ?w1 (podInfo_init ?cs1 ''default'')
       \<lparr>Container_Image = ''quay.io/coreos/etcd:v3''\<rparr>
       \<lparr>PodSpec_ImagePullSecrets = [\<lparr>Name = ''regcred''\<rparr>]\<rparr>
     = ([SecretsGet ''default'' ''regcred''], Returns (?k1, None))"
    by (simp add: Load_def podInfo_init_def readDockerSecret_def parseDockerConfig_def
        MapKeys_def MapIndex_def HasPrefix_def)
  have blob1: "GetImageBlob ?w1 ''https://quay.io'' ''user'' ''pw'' ''coreos/etcd:v3''
     = ([New ''https://quay.io'' ''user'' ''pw'', CallManifestV2 ''coreos/etcd'' ''v3''],
        None, None, Some ''cannot download manifest for image: manifest unknown'')"
    by (simp add: GetImageBlob_def ParseContainerImage_def SplitN_def)
  have trim: "TrimLeft ''quay.io/coreos/etcd:v3'' ''quay.io/'' = ''coreos/etcd:v3''"
    by (simp add: TrimLeft_def RuneSelf_def)
  have nohub: "\<not> isDockerHub ''https://quay.io''"
    by (simp add: isDockerHub_def HasPrefix_def)
  have a: "GetEntrypointCmd ?w1 ?cs1 ''default''
       \<lparr>Container_Image = ''quay.io/coreos/etcd:v3''\<rparr>
       \<lparr>PodSpec_ImagePullSecrets = [\<lparr>Name = ''regcred''\<rparr>]\<rparr>
     = ([SecretsGet ''default'' ''regcred'', New ''https://quay.io'' ''user'' ''pw'',
         CallManifestV2 ''coreos/etcd'' ''v3''],
        Returns (None, None, Some ''cannot download manifest for image: manifest unknown''))"
    using GetEntrypointCmd_default_registry
      [where w = "?w1" and cs = "?cs1" and namespace = "''default''"
         and container = "\<lparr>Container_Image = ''quay.io/coreos/etcd:v3''\<rparr>"
         and podSpec = "\<lparr>PodSpec_ImagePullSecrets = [\<lparr>Name = ''regcred''\<rparr>]\<rparr>"
         and c = "[SecretsGet ''default'' ''regcred'']" and k = "?k1"]
      load trim nohub blob1
    by (simp add: Let_def)
  have blob2: "GetImageBlob ?w2 ''https://registry-1.docker.io/'' '''' '''' ''library/redis:6''
     = ([New ''https://registry-1.docker.io/'' '''' '''', CallManifestV2 ''library/redis'' ''6''],
        None, None, Some ''cannot download manifest for image: manifest unknown'')"
    by (simp add: GetImageBlob_def ParseContainerImage_def SplitN_def)
  have b: "GetEntrypointCmd ?w2 ?cs2 ''default'' \<lparr>Container_Image = ''redis:6''\<rparr>
       \<lparr>PodSpec_ImagePullSecrets = []\<rparr>
     = ([New ''https://registry-1.docker.io/'' '''' '''', CallManifestV2 ''library/redis'' ''6''],
        Returns (None, None, Some ''cannot download manifest for image: manifest unknown''))"
    using GetEntrypointCmd_default_registry
      [where w = "?w2" and cs = "?cs2" and namespace = "''default''"
         and container = "\<lparr>Container_Image = ''redis:6''\<rparr>"
         and podSpec = "\<lparr>PodSpec_ImagePullSecrets = []\<rparr>"]
      blob2
    by (simp add: Let_def)
  from load a b show ?thesis by simp
qed

text \<open>
  Claim C1 says that the prefix \<open>R/\<close> of a resolved registry name \<open>R\<close> is removed
  from the image when the image starts with it, and that the image is unchanged
  otherwise. The code trims with \<^verbatim>\<open>strings.TrimLeft\<close>, whose second argument is a set
  of characters: every leading character of the image that occurs in \<open>R/\<close> goes. With
  the registry \<open>gcr.io\<close> the image \<open>gcr.io/google/pause:1\<close> becomes \<open>le/pause:1\<close>, and
  the manifest of \<open>le/pause\<close> is asked for; with the Docker Hub key
  \<open>https://index.docker.io/v1/\<close> the image \<open>redis:6\<close>, which does not start with the
  registry name, becomes \<open>6\<close>, and the lookup ends with a missing tag.
\<close>

theorem TrimLeft_registry_name_cuts_into_image:
  "Image (trimRegistryName
       \<lparr>clientset = (\<lambda>namespace name. Inl ''unused''), Namespace = ''default'',
        ImagePullSecrets = ''regcred'', RegistryAddress = ''https://gcr.io'',
        RegistryName = ''gcr.io'', RegistryUsername = ''user'', RegistryPassword = ''pw'',
        Image = ''gcr.io/google/pause:1''\<rparr>) = ''le/pause:1''
   \<and> Image (trimRegistryName
       \<lparr>clientset = (\<lambda>namespace name. Inl ''unused''), Namespace = ''default'',
        ImagePullSecrets = ''regcred'', RegistryAddress = ''https://index.docker.io/v1/'',
        RegistryName = ''https://index.docker.io/v1/'', RegistryUsername = ''user'',
        RegistryPassword = ''pw'', Image = ''redis:6''\<rparr>) = ''6''
   \<and> GetEntrypointCmd
       \<lparr>Getenv = (\<lambda>name. ''''),
        registry_New = (\<lambda>url username password.
          Inr \<lparr>ManifestV2 = (\<lambda>repository tag. Inl ''not found''),
               DownloadBlob = (\<lambda>repository digest. Inl ''unused'')\<rparr>),
        registry_NewInsecure = (\<lambda>url username password. Inl ''unused''),
        Unmarshal_DockerCreds =
          (\<lambda>b. Inr \<lparr>Auths = [(''gcr.io'', \<lparr>Username = ''user'', Password = ''pw''\<rparr>)]\<rparr>),
        Unmarshal_Image = (\<lambda>b. Inl ''unused'')\<rparr>
       (\<lambda>namespace name. Inr \<lparr>Data = [DockerConfigJsonKey \<mapsto> ''(auths for gcr.io)'']\<rparr>)
       ''default''
       \<lparr>Container_Image = ''gcr.io/google/pause:1''\<rparr>
       \<lparr>PodSpec_ImagePullSecrets = [\<lparr>Name = ''regcred''\<rparr>]\<rparr>
     = ([SecretsGet ''default'' ''regcred'', New ''https://gcr.io'' ''user'' ''pw'',
         CallManifestV2 ''le/pause'' ''1''],
        Returns (None, None, Some ''cannot download manifest for image: not found''))
   \<and> GetEntrypointCmd
       \<lparr>Getenv = (\<lambda>name. ''''),
        registry_New = (\<lambda>url username password. Inl ''unused''),
        registry_NewInsecure = (\<lambda>url username password. Inl ''unused''),
        Unmarshal_DockerCreds =
          (\<lambda>b. Inr \<lparr>Auths = [(''https://index.docker.io/v1/'',
                                \<lparr>Username = ''user'', Password = ''pw''\<rparr>)]\<rparr>),
        Unmarshal_Image = (\<lambda>b. Inl ''unused'')\<rparr>
       (\<lambda>namespace name. Inr \<lparr>Data = [DockerConfigJsonKey \<mapsto> ''(auths for Docker Hub)'']\<rparr>)
       ''default''
       \<lparr>Container_Image = ''redis:6''\<rparr>
       \<lparr>PodSpec_ImagePullSecrets = [\<lparr>Name = ''regcred''\<rparr>]\<rparr>
     = ([SecretsGet ''default'' ''regcred''],
        Returns (None, None, Some ''Cannot find tag for image library/6''))"
  by (simp add: GetEntrypointCmd_def Load_def podInfo_init_def readDockerSecret_def
      parseDockerConfig_def MapKeys_def MapIndex_def HasPrefix_def GetImageBlob_args_def
      trimRegistryName_def TrimLeft_def RuneSelf_def isDockerHub_def Count_def GetImageBlob_def
      ParseContainerImage_def SplitN_def)

end
